theory Spec2Isabelle
  imports Main "HOL-Library.Sublist"
begin

section \<open>The farewell bot of \<open>bot.py\<close>\<close>

text \<open>
  \<open>bot.py\<close> holds three callbacks (\<open>start\<close>, \<open>help_command\<close>, \<open>handle_member_left\<close>),
  the module-level reading of the process environment (\<open>TOKEN\<close>, \<open>PORT\<close>,
  \<open>WEBHOOK_URL\<close>) and \<open>main\<close>. Everything a callback does beyond returning is a call
  into the bot framework or the logger. The model records these calls, in program order,
  as a list of events, and returns with it either \<open>Inr ()\<close> (the callback returned) or
  \<open>Inl e\<close> (the exception \<open>e\<close> left the callback).
\<close>

subsection \<open>Platform objects\<close>

text \<open>
  The attributes of the framework's objects that the source reads. Both users and chats
  have an attribute \<open>id\<close>; the fields are named \<open>user_id\<close> and \<open>chat_id\<close> here.
  A service message "member left" is delivered only for group chats, which have a title,
  so \<open>title\<close> is a string. \<open>full_name\<close> is the display name the platform object
  offers; the model does not relate it to \<open>first_name\<close>.
\<close>

record tg_user =
  user_id :: int
  first_name :: string
  full_name :: string

record tg_chat =
  chat_id :: int
  title :: string

record tg_message =
  chat :: tg_chat
  left_chat_member :: "tg_user option"

text \<open>
  \<open>update.message\<close> is optional. \<open>update.effective_chat\<close> is, for an update that
  carries a message, the chat of that message: the handlers below read it as
  \<open>chat m\<close> in the branch where \<open>message update = Some m\<close>.
\<close>

record tg_update =
  message :: "tg_message option"

subsection \<open>Exceptions\<close>

text \<open>
  An exception is its class and the text \<open>str(e)\<close>. \<open>except Exception\<close> catches every
  class below \<open>Exception\<close>; \<open>CancelledError\<close> stands for the classes that derive from
  \<open>BaseException\<close> only, which that clause lets through.
\<close>

datatype exc_class = ValueError | AttributeError | TelegramError | CancelledError

datatype exn = Raised exc_class string

fun isinstance_Exception :: "exn \<Rightarrow> bool" where
  "isinstance_Exception (Raised CancelledError _) = False"
| "isinstance_Exception (Raised _ _) = True"

fun str_exn :: "exn \<Rightarrow> string" where
  "str_exn (Raised _ detail) = detail"

subsection \<open>Events\<close>

datatype level = INFO | ERROR

datatype callback = Start | Help_command | Handle_member_left

datatype handler =
    CommandHandler string callback
  | MessageHandler_LEFT_CHAT_MEMBER callback

text \<open>
  \<open>SendMessage cid txt\<close> is one attempt to send \<open>txt\<close> to the chat \<open>cid\<close>, whether
  or not the platform accepts it. \<open>RunWebhook listen port url_path webhook_url\<close> and
  \<open>RunPolling\<close> are the two ways \<open>main\<close> starts the bot.
\<close>

datatype event =
    Log level string
  | SendMessage int string
  | Build string
  | AddHandler handler
  | RunWebhook string int string string
  | RunPolling

type_synonym outcome = "(exn + unit) \<times> event list"

text \<open>
  \<open>context.bot\<close>: the bot's own identifier and its \<open>send_message\<close>, which either
  returns (\<open>None\<close>) or raises (\<open>Some e\<close>), as the platform decides.
\<close>

record tg_bot =
  bot_id :: int
  send_message :: "int \<Rightarrow> string \<Rightarrow> exn option"

record tg_context =
  bot :: tg_bot

subsection \<open>Formatting\<close>

text \<open>\<open>str\<close> of a Python integer, as an f-string renders it: decimal, with a minus sign.\<close>

fun digits :: "nat \<Rightarrow> string" where
  "digits n =
     (if n < 10 then [''0123456789'' ! n]
      else digits (n div 10) @ [''0123456789'' ! (n mod 10)])"

definition str_int :: "int \<Rightarrow> string" where
  "str_int i = (if i < 0 then CHR ''-'' # digits (nat (- i)) else digits (nat i))"

text \<open>The five f-strings of \<open>handle_member_left\<close>.\<close>

definition bot_removed_text :: "tg_chat \<Rightarrow> string" where
  "bot_removed_text c =
     ''Bot was removed from '' @ title c @ '' ('' @ str_int (chat_id c) @ '')''"

definition departure_text :: "tg_user \<Rightarrow> tg_chat \<Rightarrow> string \<Rightarrow> string" where
  "departure_text left_user c now =
     ''User '' @ full_name left_user @ '' (ID: '' @ str_int (user_id left_user) @ '') left ''
     @ ''group '' @ title c @ '' (ID: '' @ str_int (chat_id c) @ '') at '' @ now"

definition farewell_text :: "tg_user \<Rightarrow> tg_chat \<Rightarrow> string" where
  "farewell_text left_user c =
     ''Hi '' @ first_name left_user @ '', we noticed you left '' @ title c @ ''. ''
     @ ''We hope you enjoyed your time in the group! ''
     @ ''If you have any feedback, please let us know.''"

definition sent_text :: "tg_user \<Rightarrow> string" where
  "sent_text left_user =
     ''Sent farewell message to '' @ full_name left_user
     @ '' ('' @ str_int (user_id left_user) @ '')''"

definition failed_text :: "tg_user \<Rightarrow> exn \<Rightarrow> string" where
  "failed_text left_user e =
     ''Could not send message to '' @ full_name left_user @ '': '' @ str_exn e"

subsection \<open>The departure handler\<close>

text \<open>
  \<open>now\<close> is the text of \<open>datetime.now()\<close> at the moment of the call. The \<open>try\<close> block
  holds the send and the confirmation log; its \<open>except Exception\<close> clause logs an error
  and the handler returns. An exception outside \<open>Exception\<close> leaves the handler.
\<close>

definition handle_member_left :: "tg_update \<Rightarrow> tg_context \<Rightarrow> string \<Rightarrow> outcome" where
  "handle_member_left update context now =
     (case message update of
        None \<Rightarrow> (Inr (), [])
      | Some m \<Rightarrow>
          (case left_chat_member m of
             None \<Rightarrow> (Inr (), [])
           | Some left_user \<Rightarrow>
               if user_id left_user = bot_id (bot context)
               then (Inr (), [Log INFO (bot_removed_text (chat m))])
               else
                 (let departure = Log INFO (departure_text left_user (chat m) now);
                      attempt = SendMessage (user_id left_user) (farewell_text left_user (chat m))
                  in case send_message (bot context) (user_id left_user)
                            (farewell_text left_user (chat m)) of
                       None \<Rightarrow>
                         (Inr (), [departure, attempt, Log INFO (sent_text left_user)])
                     | Some e \<Rightarrow>
                         if isinstance_Exception e
                         then (Inr (), [departure, attempt, Log ERROR (failed_text left_user e)])
                         else (Inl e, [departure, attempt]))))"

subsection \<open>Reading a trace\<close>

fun sends :: "event list \<Rightarrow> (int \<times> string) list" where
  "sends [] = []"
| "sends (SendMessage cid txt # es) = (cid, txt) # sends es"
| "sends (_ # es) = sends es"

fun logs :: "event list \<Rightarrow> (level \<times> string) list" where
  "logs [] = []"
| "logs (Log lv txt # es) = (lv, txt) # logs es"
| "logs (_ # es) = logs es"

text \<open>The events that precede the first send attempt.\<close>

fun before_send :: "event list \<Rightarrow> event list" where
  "before_send [] = []"
| "before_send (SendMessage cid txt # es) = []"
| "before_send (e # es) = e # before_send es"

text \<open>The events that follow the first send attempt.\<close>

fun after_send :: "event list \<Rightarrow> event list" where
  "after_send [] = []"
| "after_send (SendMessage cid txt # es) = es"
| "after_send (e # es) = after_send es"

text \<open>The departing user of an update, when it has one.\<close>

definition left_member :: "tg_update \<Rightarrow> tg_user option" where
  "left_member update =
     (case message update of None \<Rightarrow> None | Some m \<Rightarrow> left_chat_member m)"

subsection \<open>The command handlers\<close>

text \<open>
  \<open>update.message.reply_text(txt)\<close> is the framework's shortcut for one \<open>send_message\<close>
  to the chat of that message, through the bot the message came from, which is
  \<open>context.bot\<close>. A failure of the send is not caught by the callbacks.
\<close>

definition reply_text :: "tg_context \<Rightarrow> tg_message \<Rightarrow> string \<Rightarrow> outcome" where
  "reply_text context m txt =
     (case send_message (bot context) (chat_id (chat m)) txt of
        None \<Rightarrow> (Inr (), [SendMessage (chat_id (chat m)) txt])
      | Some e \<Rightarrow> (Inl e, [SendMessage (chat_id (chat m)) txt]))"

definition START_TEXT :: string where
  "START_TEXT =
     ''Hi! I'm a bot that tracks when users leave groups. ''
     @ ''Add me to a group and I'll message users who leave.''"

definition HELP_TEXT :: string where
  "HELP_TEXT =
     ''Commands:'' @ [CHR 0x0A]
     @ ''/start - Start the bot'' @ [CHR 0x0A]
     @ ''/help - Show this help message'' @ [CHR 0x0A, CHR 0x0A]
     @ ''Add me to a group and I'll automatically message users who leave.''"

text \<open>
  Neither callback tests \<open>update.message\<close> before it reads \<open>reply_text\<close> from it: on an
  update without a message the attribute access on \<open>None\<close> raises.
\<close>

definition none_has_no_attribute :: "string \<Rightarrow> exn" where
  "none_has_no_attribute name =
     Raised AttributeError
       ([CHR 0x27] @ ''NoneType'' @ [CHR 0x27] @ '' object has no attribute ''
        @ [CHR 0x27] @ name @ [CHR 0x27])"

definition start :: "tg_update \<Rightarrow> tg_context \<Rightarrow> outcome" where
  "start update context =
     (case message update of
        None \<Rightarrow> (Inl (none_has_no_attribute ''reply_text''), [])
      | Some m \<Rightarrow> reply_text context m START_TEXT)"

definition help_command :: "tg_update \<Rightarrow> tg_context \<Rightarrow> outcome" where
  "help_command update context =
     (case message update of
        None \<Rightarrow> (Inl (none_has_no_attribute ''reply_text''), [])
      | Some m \<Rightarrow> reply_text context m HELP_TEXT)"

subsection \<open>Module load and \<open>main\<close>\<close>

text \<open>
  The process environment is a map from names to strings. Python's truth test on the
  result of \<open>os.environ.get\<close> fails for \<open>None\<close> and for the empty string.
\<close>

type_synonym environ = "string \<rightharpoonup> string"

fun truthy :: "string option \<Rightarrow> bool" where
  "truthy None = False"
| "truthy (Some s) = (s \<noteq> [])"

record config =
  TOKEN :: string
  PORT :: int
  WEBHOOK_URL :: "string option"

definition no_token_error :: exn where
  "no_token_error = Raised ValueError ''No TELEGRAM_TOKEN found in environment variables''"

text \<open>
  The module level, in the order of the file, after the set-up of the logger (which
  reads nothing from the environment): \<open>TOKEN\<close> and its test, then \<open>PORT\<close>, then
  \<open>WEBHOOK_URL\<close>. The builtin \<open>int\<close> is the parameter \<open>py_int\<close>: it gives the integer,
  or the \<open>ValueError\<close> that \<open>int\<close> raises on a string it cannot read. When \<open>PORT\<close> is
  not set, \<open>int\<close> receives the integer 8443 and returns it.
\<close>

definition load_module :: "(string \<Rightarrow> exn + int) \<Rightarrow> environ \<Rightarrow> exn + config" where
  "load_module py_int env =
     (case env ''TELEGRAM_TOKEN'' of
        None \<Rightarrow> Inl no_token_error
      | Some tok \<Rightarrow>
          if tok = [] then Inl no_token_error
          else
            (case (case env ''PORT'' of None \<Rightarrow> Inr 8443 | Some s \<Rightarrow> py_int s) of
               Inl e \<Rightarrow> Inl e
             | Inr port \<Rightarrow>
                 Inr \<lparr>TOKEN = tok, PORT = port, WEBHOOK_URL = env ''WEBHOOK_URL''\<rparr>))"

text \<open>
  \<open>main\<close>: the calls it makes, in order. \<open>run_webhook\<close> and \<open>run_polling\<close> serve updates
  until the bot is shut down; the log entry that follows each is written once it returns.
\<close>

definition main :: "config \<Rightarrow> event list" where
  "main cfg =
     [Build (TOKEN cfg),
      AddHandler (CommandHandler ''start'' Start),
      AddHandler (CommandHandler ''help'' Help_command),
      AddHandler (MessageHandler_LEFT_CHAT_MEMBER Handle_member_left)]
     @ (case WEBHOOK_URL cfg of
          None \<Rightarrow> [RunPolling, Log INFO ''Bot started with polling'']
        | Some url \<Rightarrow>
            if url = [] then [RunPolling, Log INFO ''Bot started with polling'']
            else [RunWebhook ''0.0.0.0'' (PORT cfg) (TOKEN cfg) (url @ ''/'' @ TOKEN cfg),
                  Log INFO (''Bot started with webhook on port '' @ str_int (PORT cfg))])"

text \<open>Running the file as a script: the module level, then \<open>main\<close>.\<close>

definition run_script :: "(string \<Rightarrow> exn + int) \<Rightarrow> environ \<Rightarrow> outcome" where
  "run_script py_int env =
     (case load_module py_int env of
        Inl e \<Rightarrow> (Inl e, [])
      | Inr cfg \<Rightarrow> (Inr (), main cfg))"

text \<open>The calls of a trace that start the bot.\<close>

fun run_calls :: "event list \<Rightarrow> event list" where
  "run_calls [] = []"
| "run_calls (RunWebhook l p u w # es) = RunWebhook l p u w # run_calls es"
| "run_calls (RunPolling # es) = RunPolling # run_calls es"
| "run_calls (_ # es) = run_calls es"

text \<open>
  An instance of \<open>py_int\<close> for evaluation: an optional sign and ASCII decimal digits.
  On every string it reads, \<open>int\<close> gives the same integer; \<open>int\<close> reads more strings
  than these (surrounding blanks, underscores between digits, other scripts' digits).
\<close>

definition digit_chars :: "char list" where
  "digit_chars = ''0123456789''"

fun digit_value :: "char \<Rightarrow> char list \<Rightarrow> nat \<Rightarrow> nat option" where
  "digit_value c [] k = None"
| "digit_value c (d # ds) k = (if c = d then Some k else digit_value c ds (Suc k))"

fun read_digits :: "nat \<Rightarrow> string \<Rightarrow> nat option" where
  "read_digits acc [] = Some acc"
| "read_digits acc (c # cs) =
     (case digit_value c digit_chars 0 of
        None \<Rightarrow> None
      | Some v \<Rightarrow> read_digits (10 * acc + v) cs)"

definition invalid_literal :: "string \<Rightarrow> exn" where
  "invalid_literal s =
     Raised ValueError
       (''invalid literal for int() with base 10: '' @ [CHR 0x27] @ s @ [CHR 0x27])"

definition int_of_digits :: "string \<Rightarrow> exn + int" where
  "int_of_digits s =
     (let (neg, body) =
            (case s of
               [] \<Rightarrow> (False, [])
             | c # cs \<Rightarrow>
                 if c = CHR ''-'' then (True, cs)
                 else if c = CHR ''+'' then (False, cs)
                 else (False, s))
      in if body = [] then Inl (invalid_literal s)
         else (case read_digits 0 body of
                 None \<Rightarrow> Inl (invalid_literal s)
               | Some n \<Rightarrow> Inr (if neg then - int n else int n)))"

subsection \<open>The example scenario\<close>

text \<open>
  The chat "Book Club" (id 555), the user "Alice" (id 42) who leaves it, and a bot
  (id 7) whose sends the platform accepts, refuses, or cancels.
\<close>

definition alice :: tg_user where
  "alice = \<lparr>user_id = 42, first_name = ''Alice'', full_name = ''Alice Smith''\<rparr>"

definition book_club :: tg_chat where
  "book_club = \<lparr>chat_id = 555, title = ''Book Club''\<rparr>"

definition alice_left :: tg_message where
  "alice_left = \<lparr>chat = book_club, left_chat_member = Some alice\<rparr>"

definition the_bot :: tg_user where
  "the_bot = \<lparr>user_id = 7, first_name = ''Farewell'', full_name = ''Farewell Bot''\<rparr>"

definition bot_left :: tg_message where
  "bot_left = \<lparr>chat = book_club, left_chat_member = Some the_bot\<rparr>"

definition plain_message :: tg_message where
  "plain_message = \<lparr>chat = book_club, left_chat_member = None\<rparr>"

definition accepting :: tg_context where
  "accepting = \<lparr>bot = \<lparr>bot_id = 7, send_message = (\<lambda>cid txt. None)\<rparr>\<rparr>"

definition forbidden :: exn where
  "forbidden = Raised TelegramError ''Forbidden: bot was blocked by the user''"

definition refusing :: tg_context where
  "refusing = \<lparr>bot = \<lparr>bot_id = 7, send_message = (\<lambda>cid txt. Some forbidden)\<rparr>\<rparr>"

definition noon :: string where
  "noon = ''2024-01-01 12:00:00.000000''"

text \<open>
  Three environments: production (token and webhook URL), development (token only), and
  development with a port that is not a number.
\<close>

definition production_env :: environ where
  "production_env =
     [''TELEGRAM_TOKEN'' \<mapsto> ''123:abc'', ''WEBHOOK_URL'' \<mapsto> ''https://bot.example.org'']"

definition development_env :: environ where
  "development_env = [''TELEGRAM_TOKEN'' \<mapsto> ''123:abc'']"

definition bad_port_env :: environ where
  "bad_port_env = [''TELEGRAM_TOKEN'' \<mapsto> ''123:abc'', ''PORT'' \<mapsto> ''abc'']"

section \<open>What the f-strings contain\<close>

text \<open>
  Each interpolated value is a contiguous part (\<open>sublist\<close>) of the text built around it.
\<close>

lemma farewell_has_first_name: "sublist (first_name u) (farewell_text u c)"
  unfolding farewell_text_def by (rule sublist_appendI)

lemma farewell_has_title: "sublist (title c) (farewell_text u c)"
proof -
  have "farewell_text u c =
      (''Hi '' @ first_name u @ '', we noticed you left '') @ title c
      @ (''. '' @ ''We hope you enjoyed your time in the group! ''
         @ ''If you have any feedback, please let us know.'')"
    by (simp add: farewell_text_def)
  then show ?thesis by (metis sublist_appendI)
qed

lemma departure_has_full_name: "sublist (full_name u) (departure_text u c now)"
  unfolding departure_text_def by (rule sublist_appendI)

lemma departure_has_user_id: "sublist (str_int (user_id u)) (departure_text u c now)"
proof -
  have "departure_text u c now =
      (''User '' @ full_name u @ '' (ID: '') @ str_int (user_id u)
      @ ('') left '' @ ''group '' @ title c @ '' (ID: '' @ str_int (chat_id c) @ '') at '' @ now)"
    by (simp add: departure_text_def)
  then show ?thesis by (metis sublist_appendI)
qed

lemma departure_has_title: "sublist (title c) (departure_text u c now)"
proof -
  have "departure_text u c now =
      (''User '' @ full_name u @ '' (ID: '' @ str_int (user_id u) @ '') left '' @ ''group '')
      @ title c @ ('' (ID: '' @ str_int (chat_id c) @ '') at '' @ now)"
    by (simp add: departure_text_def)
  then show ?thesis by (metis sublist_appendI)
qed

lemma departure_has_chat_id: "sublist (str_int (chat_id c)) (departure_text u c now)"
proof -
  have "departure_text u c now =
      (''User '' @ full_name u @ '' (ID: '' @ str_int (user_id u) @ '') left '' @ ''group ''
       @ title c @ '' (ID: '') @ str_int (chat_id c) @ ('') at '' @ now)"
    by (simp add: departure_text_def)
  then show ?thesis by (metis sublist_appendI)
qed

lemma departure_has_now: "sublist now (departure_text u c now)"
proof -
  have "departure_text u c now =
      (''User '' @ full_name u @ '' (ID: '' @ str_int (user_id u) @ '') left '' @ ''group ''
       @ title c @ '' (ID: '' @ str_int (chat_id c) @ '') at '') @ now"
    by (simp add: departure_text_def)
  then show ?thesis by (metis sublist_append_leftI)
qed

lemma bot_removed_says_so: "prefix ''Bot was removed from '' (bot_removed_text c)"
  unfolding bot_removed_text_def by (rule prefixI) (rule refl)

lemma bot_removed_has_title: "sublist (title c) (bot_removed_text c)"
  unfolding bot_removed_text_def by (rule sublist_appendI)

lemma bot_removed_has_chat_id: "sublist (str_int (chat_id c)) (bot_removed_text c)"
proof -
  have "bot_removed_text c =
      (''Bot was removed from '' @ title c @ '' ('') @ str_int (chat_id c) @ '')''"
    by (simp add: bot_removed_text_def)
  then show ?thesis by (metis sublist_appendI)
qed

lemma sent_has_full_name: "sublist (full_name u) (sent_text u)"
  unfolding sent_text_def by (rule sublist_appendI)

lemma sent_has_user_id: "sublist (str_int (user_id u)) (sent_text u)"
proof -
  have "sent_text u =
      (''Sent farewell message to '' @ full_name u @ '' ('') @ str_int (user_id u) @ '')''"
    by (simp add: sent_text_def)
  then show ?thesis by (metis sublist_appendI)
qed

lemma failed_has_full_name: "sublist (full_name u) (failed_text u e)"
  unfolding failed_text_def by (rule sublist_appendI)

lemma failed_has_detail: "sublist (str_exn e) (failed_text u e)"
proof -
  have "failed_text u e = (''Could not send message to '' @ full_name u @ '': '') @ str_exn e"
    by (simp add: failed_text_def)
  then show ?thesis by (metis sublist_append_leftI)
qed

section \<open>Properties of the departure handler\<close>

text \<open>The handler on a departure of somebody other than the bot, by the outcome of the send.\<close>

lemma handle_genuine:
  assumes "message update = Some m" and "left_chat_member m = Some left_user"
    and "user_id left_user \<noteq> bot_id (bot context)"
  shows "handle_member_left update context now =
     (case send_message (bot context) (user_id left_user) (farewell_text left_user (chat m)) of
        None \<Rightarrow>
          (Inr (), [Log INFO (departure_text left_user (chat m) now),
                    SendMessage (user_id left_user) (farewell_text left_user (chat m)),
                    Log INFO (sent_text left_user)])
      | Some e \<Rightarrow>
          if isinstance_Exception e
          then (Inr (), [Log INFO (departure_text left_user (chat m) now),
                    SendMessage (user_id left_user) (farewell_text left_user (chat m)),
                    Log ERROR (failed_text left_user e)])
          else (Inl e, [Log INFO (departure_text left_user (chat m) now),
                    SendMessage (user_id left_user) (farewell_text left_user (chat m))]))"
  using assms by (simp add: handle_member_left_def Let_def)


text \<open>
  Claim C3. An update without a left-chat-member (no message at all, or a message whose
  \<open>left_chat_member\<close> is absent) makes the departure handler return with an empty
  trace: no outbound call and no log entry.
\<close>

theorem no_left_member_is_noop:
  assumes "left_member update = None"
  shows "handle_member_left update context now = (Inr (), [])"
proof (cases "message update")
  case None
  then show ?thesis by (simp add: handle_member_left_def)
next
  case (Some m)
  with assms have "left_chat_member m = None" by (simp add: left_member_def)
  with Some show ?thesis by (simp add: handle_member_left_def)
qed

theorem no_left_member_is_noop_witness:
  "left_member \<lparr>message = Some plain_message\<rparr> = None
   \<and> handle_member_left \<lparr>message = Some plain_message\<rparr> accepting noon = (Inr (), [])"
proof -
  have h: "left_member \<lparr>message = Some plain_message\<rparr> = None"
    by (simp add: left_member_def plain_message_def)
  from no_left_member_is_noop [OF h] h show ?thesis by blast
qed

text \<open>
  Claim C4. When the member who left is the bot itself, the handler returns with exactly
  one log entry and no send attempt. The entry records the removal: its text begins
  with "Bot was removed from " and contains the chat's title and the chat's identifier.
\<close>

theorem bot_removed_one_log_no_send:
  assumes "message update = Some m" and "left_chat_member m = Some left_user"
    and "user_id left_user = bot_id (bot context)"
  shows "fst (handle_member_left update context now) = Inr ()
       \<and> logs (snd (handle_member_left update context now)) = [(INFO, bot_removed_text (chat m))]
       \<and> length (logs (snd (handle_member_left update context now))) = 1
       \<and> sends (snd (handle_member_left update context now)) = []
       \<and> prefix ''Bot was removed from '' (bot_removed_text (chat m))
       \<and> sublist (title (chat m)) (bot_removed_text (chat m))
       \<and> sublist (str_int (chat_id (chat m))) (bot_removed_text (chat m))"
proof -
  have run: "handle_member_left update context now
      = (Inr (), [Log INFO (bot_removed_text (chat m))])"
    using assms by (simp add: handle_member_left_def)
  show ?thesis
    by (simp add: run bot_removed_says_so bot_removed_has_title bot_removed_has_chat_id)
qed

theorem bot_removed_one_log_no_send_witness:
  "message \<lparr>message = Some bot_left\<rparr> = Some bot_left
   \<and> left_chat_member bot_left = Some the_bot
   \<and> user_id the_bot = bot_id (bot accepting)
   \<and> fst (handle_member_left \<lparr>message = Some bot_left\<rparr> accepting noon) = Inr ()
   \<and> logs (snd (handle_member_left \<lparr>message = Some bot_left\<rparr> accepting noon))
       = [(INFO, ''Bot was removed from Book Club (555)'')]
   \<and> length (logs (snd (handle_member_left \<lparr>message = Some bot_left\<rparr> accepting noon))) = 1
   \<and> sends (snd (handle_member_left \<lparr>message = Some bot_left\<rparr> accepting noon)) = []
   \<and> prefix ''Bot was removed from '' ''Bot was removed from Book Club (555)''
   \<and> sublist ''Book Club'' ''Bot was removed from Book Club (555)''
   \<and> sublist ''555'' ''Bot was removed from Book Club (555)''"
proof -
  have h1: "message \<lparr>message = Some bot_left\<rparr> = Some bot_left" by simp
  have h2: "left_chat_member bot_left = Some the_bot" by (simp add: bot_left_def)
  have h3: "user_id the_bot = bot_id (bot accepting)" by (simp add: the_bot_def accepting_def)
  have c: "chat bot_left = book_club" by (simp add: bot_left_def)
  have v: "title book_club = ''Book Club''" "str_int (chat_id book_club) = ''555''"
    by (simp_all add: book_club_def str_int_def)
  have d: "bot_removed_text book_club = ''Bot was removed from Book Club (555)''"
    by (simp add: bot_removed_text_def v)
  from bot_removed_one_log_no_send [OF h1 h2 h3, of noon] h1 h2 h3 show ?thesis
    unfolding c v d by blast
qed

text \<open>
  Claim C1. When somebody other than the bot has left, the trace of the handler has
  exactly one log entry before the send attempt and exactly one send attempt; the
  attempt is addressed to the departing user, and its text contains the user's first
  name and the chat's title.
\<close>

theorem genuine_departure_one_log_then_one_send:
  assumes "message update = Some m" and "left_chat_member m = Some left_user"
    and "user_id left_user \<noteq> bot_id (bot context)"
  shows "length (logs (before_send (snd (handle_member_left update context now)))) = 1
       \<and> sends (snd (handle_member_left update context now))
           = [(user_id left_user, farewell_text left_user (chat m))]
       \<and> sublist (first_name left_user) (farewell_text left_user (chat m))
       \<and> sublist (title (chat m)) (farewell_text left_user (chat m))"
proof -
  have "length (logs (before_send (snd (handle_member_left update context now)))) = 1"
    by (simp add: handle_genuine [OF assms] split: option.split)
  moreover have "sends (snd (handle_member_left update context now))
           = [(user_id left_user, farewell_text left_user (chat m))]"
    by (simp add: handle_genuine [OF assms] split: option.split)
  ultimately show ?thesis
    by (simp add: farewell_has_first_name farewell_has_title)
qed

theorem genuine_departure_one_log_then_one_send_witness:
  "message \<lparr>message = Some alice_left\<rparr> = Some alice_left
   \<and> left_chat_member alice_left = Some alice
   \<and> user_id alice \<noteq> bot_id (bot accepting)
   \<and> length (logs (before_send (snd (handle_member_left \<lparr>message = Some alice_left\<rparr> accepting noon)))) = 1
   \<and> sends (snd (handle_member_left \<lparr>message = Some alice_left\<rparr> accepting noon))
       = [(user_id alice, farewell_text alice (chat alice_left))]
   \<and> sublist (first_name alice) (farewell_text alice (chat alice_left))
   \<and> sublist (title (chat alice_left)) (farewell_text alice (chat alice_left))"
proof -
  have h1: "message \<lparr>message = Some alice_left\<rparr> = Some alice_left" by simp
  have h2: "left_chat_member alice_left = Some alice" by (simp add: alice_left_def)
  have h3: "user_id alice \<noteq> bot_id (bot accepting)" by (simp add: alice_def accepting_def)
  from genuine_departure_one_log_then_one_send [OF h1 h2 h3, of noon] h1 h2 h3
  show ?thesis by blast
qed

text \<open>
  Claim C5. When somebody other than the bot has left, the one log entry written before
  the send attempt contains the user's display name, the user's identifier, the chat's
  title, the chat's identifier and the time of the call.
\<close>

theorem departure_log_contents:
  assumes "message update = Some m" and "left_chat_member m = Some left_user"
    and "user_id left_user \<noteq> bot_id (bot context)"
  shows "logs (before_send (snd (handle_member_left update context now)))
           = [(INFO, departure_text left_user (chat m) now)]
       \<and> sublist (full_name left_user) (departure_text left_user (chat m) now)
       \<and> sublist (str_int (user_id left_user)) (departure_text left_user (chat m) now)
       \<and> sublist (title (chat m)) (departure_text left_user (chat m) now)
       \<and> sublist (str_int (chat_id (chat m))) (departure_text left_user (chat m) now)
       \<and> sublist now (departure_text left_user (chat m) now)"
proof -
  have "logs (before_send (snd (handle_member_left update context now)))
           = [(INFO, departure_text left_user (chat m) now)]"
    by (simp add: handle_genuine [OF assms] split: option.split)
  then show ?thesis
    by (simp add: departure_has_full_name departure_has_user_id departure_has_title
        departure_has_chat_id departure_has_now)
qed

theorem departure_log_contents_witness:
  "message \<lparr>message = Some alice_left\<rparr> = Some alice_left
   \<and> left_chat_member alice_left = Some alice
   \<and> user_id alice \<noteq> bot_id (bot refusing)
   \<and> logs (before_send (snd (handle_member_left \<lparr>message = Some alice_left\<rparr> refusing noon)))
       = [(INFO, ''User Alice Smith (ID: 42) left group Book Club (ID: 555) at '' @ noon)]
   \<and> sublist ''Alice Smith'' (departure_text alice book_club noon)
   \<and> sublist ''42'' (departure_text alice book_club noon)
   \<and> sublist ''Book Club'' (departure_text alice book_club noon)
   \<and> sublist ''555'' (departure_text alice book_club noon)
   \<and> sublist noon (departure_text alice book_club noon)"
proof -
  have h1: "message \<lparr>message = Some alice_left\<rparr> = Some alice_left" by simp
  have h2: "left_chat_member alice_left = Some alice" by (simp add: alice_left_def)
  have h3: "user_id alice \<noteq> bot_id (bot refusing)" by (simp add: alice_def refusing_def)
  have c: "chat alice_left = book_club" by (simp add: alice_left_def)
  have v: "full_name alice = ''Alice Smith''" "str_int (user_id alice) = ''42''"
    "title book_club = ''Book Club''" "str_int (chat_id book_club) = ''555''"
    by (simp_all add: alice_def book_club_def str_int_def)
  have d: "departure_text alice book_club noon
      = ''User Alice Smith (ID: 42) left group Book Club (ID: 555) at '' @ noon"
    by (simp add: departure_text_def v)
  from departure_log_contents [OF h1 h2 h3, of noon] h1 h2 h3 show ?thesis
    unfolding c v d by blast
qed

text \<open>
  Claim C2. When the send raises an exception of a class below \<open>Exception\<close> (every
  failure the platform client reports is one), the handler returns normally, the trace
  has exactly one entry of level \<open>ERROR\<close>, written after the attempt, whose text
  contains the user's display name and the text of the exception, and the only send of
  the trace is the one attempt addressed to the user: nothing is sent again and nothing
  is sent to the group.
\<close>

theorem failed_send_is_logged_and_swallowed:
  assumes "message update = Some m" and "left_chat_member m = Some left_user"
    and "user_id left_user \<noteq> bot_id (bot context)"
    and "send_message (bot context) (user_id left_user) (farewell_text left_user (chat m)) = Some e"
    and "isinstance_Exception e"
  shows "fst (handle_member_left update context now) = Inr ()
       \<and> filter (\<lambda>entry. fst entry = ERROR) (logs (snd (handle_member_left update context now)))
           = [(ERROR, failed_text left_user e)]
       \<and> logs (after_send (snd (handle_member_left update context now)))
           = [(ERROR, failed_text left_user e)]
       \<and> sublist (full_name left_user) (failed_text left_user e)
       \<and> sublist (str_exn e) (failed_text left_user e)
       \<and> sends (snd (handle_member_left update context now))
           = [(user_id left_user, farewell_text left_user (chat m))]"
proof -
  have run: "handle_member_left update context now =
      (Inr (), [Log INFO (departure_text left_user (chat m) now),
                SendMessage (user_id left_user) (farewell_text left_user (chat m)),
                Log ERROR (failed_text left_user e)])"
    using assms(4,5) by (simp add: handle_genuine [OF assms(1,2,3)])
  show ?thesis
    by (simp add: run failed_has_full_name failed_has_detail)
qed

theorem failed_send_is_logged_and_swallowed_witness:
  "message \<lparr>message = Some alice_left\<rparr> = Some alice_left
   \<and> left_chat_member alice_left = Some alice
   \<and> user_id alice \<noteq> bot_id (bot refusing)
   \<and> send_message (bot refusing) (user_id alice) (farewell_text alice (chat alice_left))
       = Some forbidden
   \<and> isinstance_Exception forbidden
   \<and> fst (handle_member_left \<lparr>message = Some alice_left\<rparr> refusing noon) = Inr ()
   \<and> filter (\<lambda>entry. fst entry = ERROR)
        (logs (snd (handle_member_left \<lparr>message = Some alice_left\<rparr> refusing noon)))
       = [(ERROR, failed_text alice forbidden)]
   \<and> logs (after_send (snd (handle_member_left \<lparr>message = Some alice_left\<rparr> refusing noon)))
       = [(ERROR, failed_text alice forbidden)]
   \<and> sublist (full_name alice) (failed_text alice forbidden)
   \<and> sublist (str_exn forbidden) (failed_text alice forbidden)
   \<and> sends (snd (handle_member_left \<lparr>message = Some alice_left\<rparr> refusing noon))
       = [(user_id alice, farewell_text alice (chat alice_left))]"
proof -
  have h1: "message \<lparr>message = Some alice_left\<rparr> = Some alice_left" by simp
  have h2: "left_chat_member alice_left = Some alice" by (simp add: alice_left_def)
  have h3: "user_id alice \<noteq> bot_id (bot refusing)" by (simp add: alice_def refusing_def)
  have h4: "send_message (bot refusing) (user_id alice) (farewell_text alice (chat alice_left))
       = Some forbidden" by (simp add: refusing_def)
  have h5: "isinstance_Exception forbidden" by (simp add: forbidden_def)
  from failed_send_is_logged_and_swallowed [OF h1 h2 h3 h4 h5, of noon] h1 h2 h3 h4 h5
  show ?thesis by blast
qed

text \<open>
  The \<open>except\<close> clause names \<open>Exception\<close>: an exception of another class, such as a
  cancellation of the task, is not a send failure and leaves the handler.
\<close>

lemma uncaught_class_leaves_handler:
  assumes "message update = Some m" and "left_chat_member m = Some left_user"
    and "user_id left_user \<noteq> bot_id (bot context)"
    and "send_message (bot context) (user_id left_user) (farewell_text left_user (chat m)) = Some e"
    and "\<not> isinstance_Exception e"
  shows "fst (handle_member_left update context now) = Inl e"
  using assms(4,5) by (simp add: handle_genuine [OF assms(1,2,3)])

text \<open>
  Claim C9. When the send returns, the handler writes one more entry of level \<open>INFO\<close>
  after it, containing the user's display name and identifier: the trace of a successful
  farewell has two log entries.
\<close>

theorem successful_send_is_confirmed_in_log:
  assumes "message update = Some m" and "left_chat_member m = Some left_user"
    and "user_id left_user \<noteq> bot_id (bot context)"
    and "send_message (bot context) (user_id left_user) (farewell_text left_user (chat m)) = None"
  shows "logs (after_send (snd (handle_member_left update context now)))
           = [(INFO, sent_text left_user)]
       \<and> sublist (full_name left_user) (sent_text left_user)
       \<and> sublist (str_int (user_id left_user)) (sent_text left_user)
       \<and> length (logs (snd (handle_member_left update context now))) = 2
       \<and> fst (handle_member_left update context now) = Inr ()"
proof -
  have run: "handle_member_left update context now =
      (Inr (), [Log INFO (departure_text left_user (chat m) now),
                SendMessage (user_id left_user) (farewell_text left_user (chat m)),
                Log INFO (sent_text left_user)])"
    using assms(4) by (simp add: handle_genuine [OF assms(1,2,3)])
  show ?thesis
    by (simp add: run sent_has_full_name sent_has_user_id)
qed

theorem successful_send_is_confirmed_in_log_witness:
  "message \<lparr>message = Some alice_left\<rparr> = Some alice_left
   \<and> left_chat_member alice_left = Some alice
   \<and> user_id alice \<noteq> bot_id (bot accepting)
   \<and> send_message (bot accepting) (user_id alice) (farewell_text alice (chat alice_left)) = None
   \<and> logs (after_send (snd (handle_member_left \<lparr>message = Some alice_left\<rparr> accepting noon)))
       = [(INFO, sent_text alice)]
   \<and> sublist (full_name alice) (sent_text alice)
   \<and> sublist (str_int (user_id alice)) (sent_text alice)
   \<and> length (logs (snd (handle_member_left \<lparr>message = Some alice_left\<rparr> accepting noon))) = 2
   \<and> fst (handle_member_left \<lparr>message = Some alice_left\<rparr> accepting noon) = Inr ()"
proof -
  have h1: "message \<lparr>message = Some alice_left\<rparr> = Some alice_left" by simp
  have h2: "left_chat_member alice_left = Some alice" by (simp add: alice_left_def)
  have h3: "user_id alice \<noteq> bot_id (bot accepting)" by (simp add: alice_def accepting_def)
  have h4: "send_message (bot accepting) (user_id alice) (farewell_text alice (chat alice_left))
       = None" by (simp add: accepting_def)
  from successful_send_is_confirmed_in_log [OF h1 h2 h3 h4, of noon] h1 h2 h3 h4
  show ?thesis by blast
qed

section \<open>Properties of the command handlers\<close>

text \<open>
  On an update that carries a message, each command callback makes exactly one send
  attempt, to the chat of that message, with its constant text.
\<close>

lemma reply_text_sends_once:
  "sends (snd (reply_text context m txt)) = [(chat_id (chat m), txt)]"
  by (simp add: reply_text_def split: option.split)

lemma start_replies_once:
  assumes "message update = Some m"
  shows "sends (snd (start update context)) = [(chat_id (chat m), START_TEXT)]"
  using assms by (simp add: start_def reply_text_sends_once)

lemma help_command_replies_once:
  assumes "message update = Some m"
  shows "sends (snd (help_command update context)) = [(chat_id (chat m), HELP_TEXT)]"
  using assms by (simp add: help_command_def reply_text_sends_once)

text \<open>
  Claim C6 asks for exactly one reply on every invocation of \<open>start\<close> and of
  \<open>help_command\<close>. Both read \<open>update.message.reply_text\<close> without the test of
  \<open>update.message\<close> that \<open>handle_member_left\<close> makes. \<open>main\<close> registers them with
  \<open>CommandHandler\<close> and no filter, which also delivers a command that arrives as an
  edited message; such an update has no \<open>message\<close>. There the callbacks raise
  \<open>AttributeError\<close> and send nothing.
\<close>

theorem command_on_update_without_message_raises:
  "start \<lparr>message = None\<rparr> context = (Inl (none_has_no_attribute ''reply_text''), [])
   \<and> sends (snd (start \<lparr>message = None\<rparr> context)) = []
   \<and> help_command \<lparr>message = None\<rparr> context = (Inl (none_has_no_attribute ''reply_text''), [])
   \<and> sends (snd (help_command \<lparr>message = None\<rparr> context)) = []"
  by (simp add: start_def help_command_def)

section \<open>Properties of the start of the process\<close>

text \<open>What a successful module load has read from the environment.\<close>

lemma load_module_Inr:
  assumes "load_module py_int env = Inr cfg"
  shows "env ''TELEGRAM_TOKEN'' = Some (TOKEN cfg) \<and> TOKEN cfg \<noteq> []
       \<and> WEBHOOK_URL cfg = env ''WEBHOOK_URL''
       \<and> (case env ''PORT'' of None \<Rightarrow> PORT cfg = 8443 | Some s \<Rightarrow> py_int s = Inr (PORT cfg))"
  using assms
  by (auto simp: load_module_def split: option.splits if_splits sum.splits)

text \<open>The one call by which \<open>main\<close> starts the bot.\<close>

lemma run_calls_main:
  "run_calls (main cfg) =
     (case WEBHOOK_URL cfg of
        None \<Rightarrow> [RunPolling]
      | Some url \<Rightarrow>
          if url = [] then [RunPolling]
          else [RunWebhook ''0.0.0.0'' (PORT cfg) (TOKEN cfg) (url @ ''/'' @ TOKEN cfg)])"
  by (simp add: main_def split: option.split)

text \<open>
  Claim C7. Once the module has loaded, the script starts the bot exactly once, and how
  depends on \<open>WEBHOOK_URL\<close> alone: by polling when it is not set or empty (Python's
  truth test), otherwise by a webhook on \<open>0.0.0.0\<close> at the configured port, with the
  token as URL path and as the last part of the callback URL. The port is 8443 when
  \<open>PORT\<close> is not set, and what \<open>int\<close> reads from it otherwise.
\<close>

theorem mode_follows_webhook_url:
  assumes "load_module py_int env = Inr cfg"
  shows "run_calls (snd (run_script py_int env)) =
           (case env ''WEBHOOK_URL'' of
              None \<Rightarrow> [RunPolling]
            | Some url \<Rightarrow>
                if url = [] then [RunPolling]
                else [RunWebhook ''0.0.0.0'' (PORT cfg) (TOKEN cfg) (url @ ''/'' @ TOKEN cfg)])
       \<and> (run_calls (snd (run_script py_int env)) = [RunPolling])
           = (\<not> truthy (env ''WEBHOOK_URL''))
       \<and> env ''TELEGRAM_TOKEN'' = Some (TOKEN cfg)
       \<and> (case env ''PORT'' of None \<Rightarrow> PORT cfg = 8443 | Some s \<Rightarrow> py_int s = Inr (PORT cfg))"
proof -
  note cfg = load_module_Inr [OF assms]
  have calls: "run_calls (snd (run_script py_int env)) =
           (case env ''WEBHOOK_URL'' of
              None \<Rightarrow> [RunPolling]
            | Some url \<Rightarrow>
                if url = [] then [RunPolling]
                else [RunWebhook ''0.0.0.0'' (PORT cfg) (TOKEN cfg) (url @ ''/'' @ TOKEN cfg)])"
    using cfg by (simp add: run_script_def assms run_calls_main)
  have "(run_calls (snd (run_script py_int env)) = [RunPolling])
           = (\<not> truthy (env ''WEBHOOK_URL''))"
    unfolding calls by (cases "env ''WEBHOOK_URL''") simp_all
  with calls cfg show ?thesis by simp
qed

theorem mode_follows_webhook_url_witness:
  "load_module int_of_digits production_env
     = Inr \<lparr>TOKEN = ''123:abc'', PORT = 8443, WEBHOOK_URL = Some ''https://bot.example.org''\<rparr>
   \<and> run_calls (snd (run_script int_of_digits production_env))
       = [RunWebhook ''0.0.0.0'' 8443 ''123:abc'' ''https://bot.example.org/123:abc'']
   \<and> production_env ''PORT'' = None
   \<and> load_module int_of_digits development_env
       = Inr \<lparr>TOKEN = ''123:abc'', PORT = 8443, WEBHOOK_URL = None\<rparr>
   \<and> run_calls (snd (run_script int_of_digits development_env)) = [RunPolling]"
proof -
  have p: "load_module int_of_digits production_env
     = Inr \<lparr>TOKEN = ''123:abc'', PORT = 8443, WEBHOOK_URL = Some ''https://bot.example.org''\<rparr>"
    by (simp add: load_module_def production_env_def)
  have d: "load_module int_of_digits development_env
     = Inr \<lparr>TOKEN = ''123:abc'', PORT = 8443, WEBHOOK_URL = None\<rparr>"
    by (simp add: load_module_def development_env_def)
  have "run_calls (snd (run_script int_of_digits production_env))
       = [RunWebhook ''0.0.0.0'' 8443 ''123:abc'' ''https://bot.example.org/123:abc'']"
    using mode_follows_webhook_url [OF p] by (simp add: production_env_def)
  moreover have "run_calls (snd (run_script int_of_digits development_env)) = [RunPolling]"
    using mode_follows_webhook_url [OF d] by (simp add: development_env_def)
  moreover have "production_env ''PORT'' = None" by (simp add: production_env_def)
  ultimately show ?thesis using p d by simp
qed

text \<open>
  Claim C8. Without \<open>TELEGRAM_TOKEN\<close> in the environment the script ends with the
  \<open>ValueError\<close> of the module level, before the application is built, a handler is
  added or the bot is started.
\<close>

theorem missing_token_aborts:
  assumes "env ''TELEGRAM_TOKEN'' = None"
  shows "run_script py_int env = (Inl no_token_error, [])"
  using assms by (simp add: run_script_def load_module_def)

theorem missing_token_aborts_witness:
  "[''PORT'' \<mapsto> ''8443''] ''TELEGRAM_TOKEN'' = None
   \<and> run_script int_of_digits [''PORT'' \<mapsto> ''8443'']
       = (Inl (Raised ValueError ''No TELEGRAM_TOKEN found in environment variables''), [])"
proof -
  have h: "[''PORT'' \<mapsto> ''8443''] ''TELEGRAM_TOKEN'' = None" by simp
  from missing_token_aborts [where env = "[''PORT'' \<mapsto> ''8443'']" and py_int = int_of_digits, OF h] h
  show ?thesis
    by (simp add: no_token_error_def)
qed

text \<open>
  Claim C10. \<open>PORT\<close> is read at the module level, whatever \<open>WEBHOOK_URL\<close> is: a value
  that \<open>int\<close> rejects ends the script with that error (or with the missing-token error,
  which comes first), and nothing of \<open>main\<close> runs, also when the bot would have polled.
\<close>

theorem unreadable_port_aborts:
  assumes "env ''PORT'' = Some s" and "py_int s = Inl e"
  shows "snd (run_script py_int env) = []
       \<and> fst (run_script py_int env)
           = Inl (if truthy (env ''TELEGRAM_TOKEN'') then e else no_token_error)"
  using assms
  by (cases "env ''TELEGRAM_TOKEN''") (simp_all add: run_script_def load_module_def)

theorem unreadable_port_aborts_witness:
  "bad_port_env ''PORT'' = Some ''abc''
   \<and> int_of_digits ''abc'' = Inl (invalid_literal ''abc'')
   \<and> bad_port_env ''WEBHOOK_URL'' = None
   \<and> snd (run_script int_of_digits bad_port_env) = []
   \<and> fst (run_script int_of_digits bad_port_env) = Inl (invalid_literal ''abc'')"
proof -
  have h1: "bad_port_env ''PORT'' = Some ''abc''" by (simp add: bad_port_env_def)
  have h2: "int_of_digits ''abc'' = Inl (invalid_literal ''abc'')"
    by (simp add: int_of_digits_def digit_chars_def)
  have h3: "bad_port_env ''WEBHOOK_URL'' = None" by (simp add: bad_port_env_def)
  have t: "truthy (bad_port_env ''TELEGRAM_TOKEN'')" by (simp add: bad_port_env_def)
  from unreadable_port_aborts [where env = bad_port_env and py_int = int_of_digits, OF h1 h2]
    h1 h2 h3 t
  show ?thesis by simp
qed

end
